theory Spec2Isabelle
  imports Main "HOL-Library.Sublist" "HOL-Library.Word"
begin

section \<open>Python values, exceptions and text\<close>

text \<open>
  The stream routes of \<^verbatim>\<open>FileStream/server/stream_routes.py\<close> work on dynamically
  typed values: the stored record is a dictionary whose values may be absent, integers or
  text. Text is a list of 8-bit characters, each standing for one code point below 256;
  integers are unbounded.
\<close>

datatype pyval = PNone | PInt int | PStr string

text \<open>
  The exception classes the module names or can meet. \<open>OffsetInvalid\<close> and \<open>FloodWait\<close>
  derive from \<open>RPCError\<close>, \<open>ConnectionResetError\<close> and \<open>BrokenPipeError\<close> from
  \<open>OSError\<close>; all of them derive from \<open>Exception\<close>. \<open>CancelledError\<close> derives from
  \<open>BaseException\<close> only, so an \<^verbatim>\<open>except Exception\<close> clause lets it through.
\<close>

datatype exn =
    ValueError | TypeError | AttributeError
  | RPCError | OffsetInvalid | FloodWait
  | OSError | ConnectionResetError | BrokenPipeError
  | OtherException | CancelledError

fun is_Exception :: "exn \<Rightarrow> bool" where
  "is_Exception CancelledError = False"
| "is_Exception _ = True"

fun is_RPCError :: "exn \<Rightarrow> bool" where
  "is_RPCError RPCError = True"
| "is_RPCError OffsetInvalid = True"
| "is_RPCError FloodWait = True"
| "is_RPCError _ = False"

fun is_OSError :: "exn \<Rightarrow> bool" where
  "is_OSError OSError = True"
| "is_OSError ConnectionResetError = True"
| "is_OSError BrokenPipeError = True"
| "is_OSError _ = False"

text \<open>Truth value of a Python value, and \<^verbatim>\<open>a or b\<close>.\<close>

fun truthy :: "pyval \<Rightarrow> bool" where
  "truthy PNone = False"
| "truthy (PInt i) = (i \<noteq> 0)"
| "truthy (PStr s) = (s \<noteq> [])"

definition py_or :: "pyval \<Rightarrow> pyval \<Rightarrow> pyval" where
  "py_or a b = (if truthy a then a else b)"

subsection \<open>Decimal text of an integer: \<^verbatim>\<open>str(n)\<close> and \<^verbatim>\<open>f"{n}"\<close>\<close>

definition digit_char :: "nat \<Rightarrow> char" where
  "digit_char d = ''0123456789'' ! d"

fun str_nat :: "nat \<Rightarrow> string" where
  "str_nat n = (if n < 10 then [digit_char n] else str_nat (n div 10) @ [digit_char (n mod 10)])"

declare str_nat.simps [simp del]

definition str_int :: "int \<Rightarrow> string" where
  "str_int i = (if i < 0 then CHR ''-'' # str_nat (nat (- i)) else str_nat (nat i))"

fun py_format :: "pyval \<Rightarrow> string" where
  "py_format PNone = ''None''"
| "py_format (PInt i) = str_int i"
| "py_format (PStr s) = s"

subsection \<open>\<^verbatim>\<open>int(text)\<close>\<close>

text \<open>
  \<^verbatim>\<open>int\<close> on text skips white space at both ends, reads one optional sign and then
  decimal digits, where a single underscore may stand between two digits. Anything else
  raises \<open>ValueError\<close>. Among the code points below 256 the white space it skips is
  tab, line feed, vertical tab, form feed, carriage return, space, U+0085 and U+00A0, and
  the only decimal digits are \<open>0\<close> to \<open>9\<close>.
\<close>

definition int_space :: "char \<Rightarrow> bool" where
  "int_space c = (c \<in> {CHR 0x09, CHR 0x0A, CHR 0x0B, CHR 0x0C, CHR 0x0D, CHR 0x20, CHR 0x85, CHR 0xA0})"

definition is_digit :: "char \<Rightarrow> bool" where
  "is_digit c = (c \<in> set ''0123456789'')"

definition digit_val :: "char \<Rightarrow> nat" where
  "digit_val c = of_char c - 48"

fun digits_value :: "nat \<Rightarrow> string \<Rightarrow> nat option" where
  "digits_value acc [] = Some acc"
| "digits_value acc [c] = (if is_digit c then Some (10 * acc + digit_val c) else None)"
| "digits_value acc (c # d # ds) =
     (if is_digit c then digits_value (10 * acc + digit_val c) (d # ds)
      else if c = CHR ''_'' \<and> is_digit d then digits_value (10 * acc + digit_val d) ds
      else None)"

definition rstrip_space :: "string \<Rightarrow> string" where
  "rstrip_space s = rev (dropWhile int_space (rev s))"

fun unsigned_value :: "string \<Rightarrow> nat option" where
  "unsigned_value [] = None"
| "unsigned_value (c # cs) = (if is_digit c then digits_value (digit_val c) cs else None)"

definition int_of_str :: "string \<Rightarrow> exn + int" where
  "int_of_str s =
     (let t = rstrip_space (dropWhile int_space s);
          (negative, u) = (case t of
               c # r \<Rightarrow> if c = CHR ''-'' then (True, r) else if c = CHR ''+'' then (False, r) else (False, t)
             | [] \<Rightarrow> (False, t))
      in case unsigned_value u of
           None \<Rightarrow> Inl ValueError
         | Some n \<Rightarrow> Inr (if negative then - int n else int n))"

fun py_int :: "pyval \<Rightarrow> exn + int" where
  "py_int PNone = Inl TypeError"
| "py_int (PInt i) = Inr i"
| "py_int (PStr s) = int_of_str s"

subsection \<open>\<^verbatim>\<open>str.replace\<close>, \<^verbatim>\<open>str.split\<close>, \<^verbatim>\<open>in\<close> and \<^verbatim>\<open>str.strip\<close>\<close>

function py_replace :: "string \<Rightarrow> string \<Rightarrow> string \<Rightarrow> string" where
  "py_replace old new [] = (if old = [] then new else [])"
| "py_replace old new (c # cs) =
     (if old = [] then new @ c # py_replace old new cs
      else if prefix old (c # cs) then new @ py_replace old new (drop (length old) (c # cs))
      else c # py_replace old new cs)"
  by pat_completeness auto
termination
  by (relation "measure (\<lambda>(old, new, s). length s)") auto

text \<open>Splitting at a one-character separator.\<close>

fun py_split :: "char \<Rightarrow> string \<Rightarrow> string list" where
  "py_split sep [] = [[]]"
| "py_split sep (c # cs) =
     (if c = sep then [] # py_split sep cs
      else (case py_split sep cs of
              [] \<Rightarrow> [[c]]
            | x # xs \<Rightarrow> (c # x) # xs))"

fun py_in :: "string \<Rightarrow> string \<Rightarrow> bool" where
  "py_in sub [] = (sub = [])"
| "py_in sub (c # cs) = (prefix sub (c # cs) \<or> py_in sub cs)"

definition str_space :: "char \<Rightarrow> bool" where
  "str_space c = (c \<in> {CHR 0x09, CHR 0x0A, CHR 0x0B, CHR 0x0C, CHR 0x0D, CHR 0x1C, CHR 0x1D,
                        CHR 0x1E, CHR 0x1F, CHR 0x20, CHR 0x85, CHR 0xA0})"

definition py_strip :: "(char \<Rightarrow> bool) \<Rightarrow> string \<Rightarrow> string" where
  "py_strip drops s = rev (dropWhile drops (rev (dropWhile drops s)))"

subsection \<open>Dictionaries\<close>

type_synonym pydict = "(string \<times> pyval) list"

definition dict_get :: "pydict \<Rightarrow> string \<Rightarrow> pyval \<Rightarrow> pyval" where
  "dict_get d k dflt = (case map_of d k of None \<Rightarrow> dflt | Some v \<Rightarrow> v)"

fun dict_set :: "string \<Rightarrow> string \<Rightarrow> (string \<times> string) list \<Rightarrow> (string \<times> string) list" where
  "dict_set k v [] = [(k, v)]"
| "dict_set k v (p # ps) = (if fst p = k then (k, v) # ps else p # dict_set k v ps)"

definition dict_update :: "(string \<times> string) list \<Rightarrow> (string \<times> string) list \<Rightarrow> (string \<times> string) list" where
  "dict_update d new = fold (\<lambda>(k, v). dict_set k v) new d"

section \<open>Responses\<close>

text \<open>
  A response is what a handler hands to \<^verbatim>\<open>web.Response\<close> or
  \<^verbatim>\<open>web.json_response\<close>: the status, the header dictionary in insertion order, and the
  body. \<open>ServerErrorText e\<close> stands for the text \<^verbatim>\<open>f"Server Error: {e}"\<close> and
  \<open>JsonError e\<close> for the object \<^verbatim>\<open>{"error": str(e)}\<close>. A streamed body holds the chunks
  the generator yields when it is run to its end, and the exception it lets escape, if any.
\<close>

type_synonym chunk = "8 word list"

datatype body =
    NoBody
  | Text string
  | ServerErrorText exn
  | Json "(string \<times> pyval) list"
  | JsonError exn
  | Stream "chunk list" "exn option"

record response =
  status :: nat
  headers :: "(string \<times> string) list"
  body :: body

definition cors_headers :: "(string \<times> string) list" where
  "cors_headers =
     [(''Access-Control-Allow-Origin'', ''*''),
      (''Access-Control-Allow-Methods'', ''GET, POST, OPTIONS, HEAD''),
      (''Access-Control-Allow-Headers'', ''Content-Type, Range, User-Agent, X-Requested-With''),
      (''Access-Control-Expose-Headers'', ''Content-Length, Content-Range, Content-Disposition''),
      (''Access-Control-Max-Age'', ''86400'')]"

section \<open>The collaborators of a request\<close>

text \<open>
  The lookup store, the upstream client and the configuration are outside the module. One
  request sees them through the values below: what \<^verbatim>\<open>db.get_file\<close> answers for an id,
  what the two calls of \<^verbatim>\<open>bot.get_messages\<close> answer for a message id (the second one
  is made by the generator), and what \<^verbatim>\<open>bot.stream_media\<close> produces for a message, an
  offset and a limit. A call that raises is \<open>Inl\<close>.

  A message carries \<open>media_file\<close>, the object that
  \<^verbatim>\<open>getattr(msg, msg.media.value)\<close> reads (\<open>None\<close>: reading it raises). A media object
  has the attributes that are present on it; \<open>file_size\<close> is an integer when present.

  The upstream iterator is the list of what it does at each pull: it hands out a chunk or
  raises; at the end of the list it is exhausted.
\<close>

record media_object =
  file_size_attr :: "int option"
  file_name_attr :: "pyval option"
  mime_type_attr :: "pyval option"

record message =
  message_id :: int
  media_file :: "media_object option"

datatype event = Chunk chunk | Fails exn

record request =
  match_id :: string
  path :: string
  range_header :: "string option"
  get_file :: "string \<Rightarrow> exn + pydict option"
  get_messages :: "int \<Rightarrow> exn + message"
  get_messages_again :: "int \<Rightarrow> exn + message"
  stream_media :: "message \<Rightarrow> int \<Rightarrow> int \<Rightarrow> event list"
  var_url :: pyval

section \<open>Root, API and preflight handlers\<close>

definition root_route_handler :: "request \<Rightarrow> exn + response" where
  "root_route_handler rq =
     Inr \<lparr>status = 200, headers = cors_headers, body = Json [(''status'', PStr ''running'')]\<rparr>"

text \<open>
  \<^verbatim>\<open>except Exception as e\<close> around a handler body: an exception that derives from
  \<open>Exception\<close> becomes the given response, any other one leaves the handler.
\<close>

definition except_Exception :: "(exn \<Rightarrow> response) \<Rightarrow> exn + response \<Rightarrow> exn + response" where
  "except_Exception on_error r =
     (case r of
        Inl e \<Rightarrow> if is_Exception e then Inr (on_error e) else Inl e
      | Inr x \<Rightarrow> Inr x)"

definition api_handler_try :: "request \<Rightarrow> exn + response" where
  "api_handler_try rq =
     (case get_file rq (match_id rq) of
        Inl e \<Rightarrow> Inl e
      | Inr found \<Rightarrow>
          (case found of
             None \<Rightarrow> Inr \<lparr>status = 404, headers = cors_headers,
                           body = Json [(''error'', PStr ''File not found'')]\<rparr>
           | Some file_data \<Rightarrow>
               if file_data = [] then
                 Inr \<lparr>status = 404, headers = cors_headers,
                      body = Json [(''error'', PStr ''File not found'')]\<rparr>
               else
                 (let base_url = py_strip (\<lambda>c. c = CHR ''/'') (py_strip str_space (py_format (var_url rq)));
                      stream_url = base_url @ ''/watch/'' @ match_id rq;
                      dl_link = base_url @ ''/dl/'' @ match_id rq;
                      drive_link =
                        (if truthy (dict_get file_data ''drive_id'' PNone)
                         then PStr (''https://drive.google.com/file/d/''
                                    @ py_format (dict_get file_data ''drive_id'' PNone) @ ''/view'')
                         else PNone)
                  in Inr \<lparr>status = 200, headers = cors_headers,
                          body = Json
                            [(''id'', PStr (match_id rq)),
                             (''title'', dict_get file_data ''anime_title'' (PStr ''Unknown'')),
                             (''stream_url'', PStr stream_url),
                             (''download_link'', PStr dl_link),
                             (''drive_link'', drive_link),
                             (''poster'', dict_get file_data ''poster'' PNone),
                             (''genres'', dict_get file_data ''genres'' PNone),
                             (''quality'', dict_get file_data ''quality'' PNone)]\<rparr>)))"

definition api_handler :: "request \<Rightarrow> exn + response" where
  "api_handler rq =
     except_Exception (\<lambda>e. \<lparr>status = 500, headers = cors_headers, body = JsonError e\<rparr>)
       (api_handler_try rq)"

definition stream_options_handler :: "request \<Rightarrow> exn + response" where
  "stream_options_handler rq = Inr \<lparr>status = 200, headers = cors_headers, body = NoBody\<rparr>"

section \<open>The stream handler\<close>

subsection \<open>Step 1: file properties\<close>

record file_properties =
  file_size :: int
  file_name :: pyval
  mime_type :: pyval
  msg :: "message option"

text \<open>The body of the inner \<^verbatim>\<open>try\<close>: the live fetch and the attribute reads.\<close>

definition live_properties :: "request \<Rightarrow> int \<Rightarrow> exn + file_properties" where
  "live_properties rq msg_id =
     (case get_messages rq msg_id of
        Inl e \<Rightarrow> Inl e
      | Inr m \<Rightarrow>
          (case media_file m of
             None \<Rightarrow> Inl AttributeError
           | Some file_id \<Rightarrow>
               (case file_size_attr file_id of
                  None \<Rightarrow> Inl AttributeError
                | Some n \<Rightarrow>
                    Inr \<lparr>file_size = n,
                         file_name = (case file_name_attr file_id of
                                        None \<Rightarrow> PStr ''video.mp4'' | Some v \<Rightarrow> v),
                         mime_type = py_or (case mime_type_attr file_id of
                                              None \<Rightarrow> PStr ''video/mp4'' | Some v \<Rightarrow> v)
                                           (PStr ''video/mp4''),
                         msg = Some m\<rparr>)))"

text \<open>The \<^verbatim>\<open>except Exception\<close> branch: the stored fields.\<close>

definition fallback_properties :: "pydict \<Rightarrow> exn + file_properties" where
  "fallback_properties file_data =
     (case py_int (dict_get file_data ''file_size'' (PInt 0)) of
        Inl e \<Rightarrow> Inl e
      | Inr n \<Rightarrow>
          Inr \<lparr>file_size = n,
               file_name = dict_get file_data ''file_name'' (PStr ''video.mp4''),
               mime_type = PStr ''video/mp4'',
               msg = None\<rparr>)"

definition get_file_properties :: "request \<Rightarrow> pydict \<Rightarrow> int \<Rightarrow> exn + file_properties" where
  "get_file_properties rq file_data msg_id =
     (case live_properties rq msg_id of
        Inl e \<Rightarrow> if is_Exception e then fallback_properties file_data else Inl e
      | Inr p \<Rightarrow> Inr p)"

subsection \<open>Step 2: the range\<close>

definition header_truthy :: "string option \<Rightarrow> bool" where
  "header_truthy h = (case h of None \<Rightarrow> False | Some s \<Rightarrow> s \<noteq> [])"

definition parse_range :: "string option \<Rightarrow> int \<Rightarrow> exn + int \<times> int" where
  "parse_range h n =
     (case h of
        None \<Rightarrow> Inr (0, n - 1)
      | Some s \<Rightarrow>
          if s = [] then Inr (0, n - 1)
          else
            (case py_split CHR ''-'' (py_replace ''bytes='' [] s) of
               [from_bytes, until_bytes] \<Rightarrow>
                 (case int_of_str from_bytes of
                    Inl e \<Rightarrow> Inl e
                  | Inr f \<Rightarrow>
                      if until_bytes \<noteq> [] then
                        (case int_of_str until_bytes of
                           Inl e \<Rightarrow> Inl e
                         | Inr u \<Rightarrow> Inr (f, u))
                      else Inr (f, n - 1))
             | _ \<Rightarrow> Inl ValueError))"

subsection \<open>Step 3: the generator\<close>

text \<open>
  The loop over the upstream iterator: every chunk is yielded, then counted, and the loop
  leaves once the count has reached \<open>req_length\<close>. The three \<^verbatim>\<open>except\<close> clauses
  around it all pass.
\<close>

fun stream_loop :: "int \<Rightarrow> int \<Rightarrow> event list \<Rightarrow> chunk list \<times> exn option" where
  "stream_loop req_length total_yielded [] = ([], None)"
| "stream_loop req_length total_yielded (Fails e # rest) =
     ([], if is_RPCError e then None
          else if is_OSError e then None
          else if is_Exception e then None
          else Some e)"
| "stream_loop req_length total_yielded (Chunk c # rest) =
     (let total = total_yielded + int (length c)
      in if total \<ge> req_length then ([c], None)
         else (case stream_loop req_length total rest of
                 (cs, r) \<Rightarrow> (c # cs, r)))"

definition media_streamer ::
  "request \<Rightarrow> int \<Rightarrow> message option \<Rightarrow> int \<Rightarrow> int \<Rightarrow> chunk list \<times> exn option" where
  "media_streamer rq msg_id m from_bytes req_length =
     (case m of
        Some message_to_stream \<Rightarrow>
          stream_loop req_length 0 (stream_media rq message_to_stream from_bytes req_length)
      | None \<Rightarrow>
          (case get_messages_again rq msg_id of
             Inl e \<Rightarrow> ([], None)
           | Inr message_to_stream \<Rightarrow>
               stream_loop req_length 0 (stream_media rq message_to_stream from_bytes req_length)))"

subsection \<open>The handler\<close>

text \<open>The text of the 404 answer starts with the cross mark U+274C, written in UTF-8.\<close>

definition not_found :: response where
  "not_found = \<lparr>status = 404, headers = cors_headers,
                 body = Text ([CHR 0xE2, CHR 0x9D, CHR 0x8C] @ '' File Not Found'')\<rparr>"

definition range_not_satisfiable :: "int \<Rightarrow> response" where
  "range_not_satisfiable n =
     \<lparr>status = 416,
      headers = [(''Content-Range'', ''bytes */'' @ str_int n)],
      body = Text ''416: Range not satisfiable''\<rparr>"

definition success_headers :: "request \<Rightarrow> file_properties \<Rightarrow> int \<Rightarrow> int \<Rightarrow> (string \<times> string) list" where
  "success_headers rq p from_bytes until_bytes =
     (let req_length = until_bytes - from_bytes + 1;
          disposition = (if py_in ''/dl/'' (path rq) then ''attachment'' else ''inline'')
      in dict_update cors_headers
           [(''Content-Type'', py_format (mime_type p)),
            (''Content-Range'',
               ''bytes '' @ str_int from_bytes @ ''-'' @ str_int until_bytes @ ''/'' @ str_int (file_size p)),
            (''Content-Length'', str_int req_length),
            (''Content-Disposition'',
               disposition @ ''; filename='' @ [CHR 0x22] @ py_format (file_name p) @ [CHR 0x22]),
            (''Accept-Ranges'', ''bytes'')])"

definition range_response :: "request \<Rightarrow> int \<Rightarrow> file_properties \<Rightarrow> int \<Rightarrow> int \<Rightarrow> response" where
  "range_response rq msg_id p from_bytes until_bytes =
     (if until_bytes \<ge> file_size p \<or> from_bytes < 0 \<or> until_bytes < from_bytes
      then range_not_satisfiable (file_size p)
      else
        (let req_length = until_bytes - from_bytes + 1
         in \<lparr>status = (if header_truthy (range_header rq) then 206 else 200),
             headers = success_headers rq p from_bytes until_bytes,
             body = (case media_streamer rq msg_id (msg p) from_bytes req_length of
                       (chunks, escaped) \<Rightarrow> Stream chunks escaped)\<rparr>))"

text \<open>
  The handler up to the end of step 1: it raises, returns the 404 answer, or goes on with
  the message id and the file properties.
\<close>

datatype 'a step = Raised exn | Returned response | Next 'a

definition resolving :: "request \<Rightarrow> (int \<times> file_properties) step" where
  "resolving rq =
     (case get_file rq (match_id rq) of
        Inl e \<Rightarrow> Raised e
      | Inr found \<Rightarrow>
          (case found of
             None \<Rightarrow> Returned not_found
           | Some file_data \<Rightarrow>
               if file_data = [] then Returned not_found
               else
                 (case py_int (py_or (dict_get file_data ''file_id'' PNone)
                                     (dict_get file_data ''message_id'' PNone)) of
                    Inl e \<Rightarrow> Raised e
                  | Inr msg_id \<Rightarrow>
                      (case get_file_properties rq file_data msg_id of
                         Inl e \<Rightarrow> Raised e
                       | Inr p \<Rightarrow> Next (msg_id, p)))))"

definition stream_handler_try :: "request \<Rightarrow> exn + response" where
  "stream_handler_try rq =
     (case resolving rq of
        Raised e \<Rightarrow> Inl e
      | Returned r \<Rightarrow> Inr r
      | Next (msg_id, p) \<Rightarrow>
          (case parse_range (range_header rq) (file_size p) of
             Inl e \<Rightarrow> Inl e
           | Inr (from_bytes, until_bytes) \<Rightarrow>
               Inr (range_response rq msg_id p from_bytes until_bytes)))"

definition server_error :: "exn \<Rightarrow> response" where
  "server_error e = \<lparr>status = 500, headers = cors_headers, body = ServerErrorText e\<rparr>"

definition stream_handler :: "request \<Rightarrow> exn + response" where
  "stream_handler rq = except_Exception server_error (stream_handler_try rq)"

section \<open>Notions used in the properties\<close>

text \<open>The value of a string of digits read from the left, starting from \<open>acc\<close>.\<close>

definition digits_fold :: "nat \<Rightarrow> string \<Rightarrow> nat" where
  "digits_fold acc ds = foldl (\<lambda>a c. 10 * a + digit_val c) acc ds"

text \<open>The number of bytes in a list of chunks.\<close>

definition total_bytes :: "chunk list \<Rightarrow> nat" where
  "total_bytes cs = sum_list (map length cs)"

text \<open>What the upstream iterator hands out before it raises for the first time.\<close>

fun available :: "event list \<Rightarrow> chunk list" where
  "available [] = []"
| "available (Fails e # rest) = []"
| "available (Chunk c # rest) = c # available rest"

text \<open>
  The failures the specification calls transient: rate limiting, an invalid offset, a
  protocol error, and transport errors.
\<close>

definition transient_failure :: "exn \<Rightarrow> bool" where
  "transient_failure e =
     (e \<in> {FloodWait, OffsetInvalid, RPCError, OSError, ConnectionResetError, BrokenPipeError})"

text \<open>
  A non-empty \<^verbatim>\<open>Range\<close> header the handler cannot read: with every \<^verbatim>\<open>bytes=\<close>
  removed it does not split at \<^verbatim>\<open>-\<close> into exactly two tokens, or \<^verbatim>\<open>int\<close> rejects the
  first token or a non-empty second token.
\<close>

definition malformed_range :: "string \<Rightarrow> bool" where
  "malformed_range h =
     (case py_split CHR ''-'' (py_replace ''bytes='' [] h) of
        [from_bytes, until_bytes] \<Rightarrow>
          isl (int_of_str from_bytes) \<or> (until_bytes \<noteq> [] \<and> isl (int_of_str until_bytes))
      | _ \<Rightarrow> True)"

subsection \<open>Example requests\<close>

definition example_message :: message where
  "example_message =
     \<lparr>message_id = 7,
      media_file = Some \<lparr>file_size_attr = Some 1000,
                         file_name_attr = Some (PStr ''ep1.mkv''),
                         mime_type_attr = Some (PStr ''video/x-matroska'')\<rparr>\<rparr>"

definition example_events :: "event list" where
  "example_events = [Chunk [1, 2, 3], Chunk [4, 5, 6], Fails FloodWait, Chunk [7, 8, 9]]"

definition example_request :: request where
  "example_request =
     \<lparr>match_id = ''abc'',
      path = ''/watch/abc'',
      range_header = None,
      get_file = (\<lambda>i. if i = ''abc''
                       then Inr (Some [(''file_id'', PInt 7), (''file_name'', PStr ''stored.mkv'')])
                       else Inr None),
      get_messages = (\<lambda>i. if i = 7 then Inr example_message else Inl RPCError),
      get_messages_again = (\<lambda>i. if i = 7 then Inr example_message else Inl RPCError),
      stream_media = (\<lambda>m offset limit. example_events),
      var_url = PStr ''https://example.org/''\<rparr>"

text \<open>What the handler finds out about the file of \<open>example_request\<close>.\<close>

definition example_properties :: file_properties where
  "example_properties = \<lparr>file_size = 1000, file_name = PStr ''ep1.mkv'',
       mime_type = PStr ''video/x-matroska'', msg = Some example_message\<rparr>"

text \<open>A file of ten bytes that the upstream hands out as one chunk.\<close>

definition small_file_request :: request where
  "small_file_request =
     \<lparr>match_id = ''abc'',
      path = ''/stream/abc'',
      range_header = Some ''bytes=0-1'',
      get_file = (\<lambda>i. Inr (Some [(''file_id'', PInt 7)])),
      get_messages = (\<lambda>i. Inr \<lparr>message_id = i,
                                 media_file = Some \<lparr>file_size_attr = Some 10,
                                                    file_name_attr = Some (PStr ''a.bin''),
                                                    mime_type_attr = None\<rparr>\<rparr>),
      get_messages_again = (\<lambda>i. Inl RPCError),
      stream_media = (\<lambda>m offset limit. [Chunk [0, 1, 2, 3, 4, 5, 6, 7, 8, 9]]),
      var_url = PStr ''https://example.org/''\<rparr>"

text \<open>The live fetch fails and the store has a record without usable size.\<close>

definition offline_request :: "pydict \<Rightarrow> string option \<Rightarrow> request" where
  "offline_request file_data h =
     \<lparr>match_id = ''abc'',
      path = ''/dl/abc'',
      range_header = h,
      get_file = (\<lambda>i. Inr (Some file_data)),
      get_messages = (\<lambda>i. Inl FloodWait),
      get_messages_again = (\<lambda>i. Inl FloodWait),
      stream_media = (\<lambda>m offset limit. []),
      var_url = PStr ''https://example.org/''\<rparr>"

section \<open>Decimal text and the range parser\<close>

lemma lt_10_cases: "d < (10::nat) \<Longrightarrow> d \<in> {0, 1, 2, 3, 4, 5, 6, 7, 8, 9}"
  by auto

lemma digit_char_is_digit: "d < 10 \<Longrightarrow> is_digit (digit_char d)"
  by (drule lt_10_cases) (auto simp: is_digit_def digit_char_def)

lemma digit_val_digit_char: "d < 10 \<Longrightarrow> digit_val (digit_char d) = d"
  by (drule lt_10_cases) (auto simp: digit_val_def digit_char_def)

lemma is_digit_plain:
  "is_digit c \<Longrightarrow> \<not> int_space c \<and> c \<noteq> CHR ''-'' \<and> c \<noteq> CHR ''+'' \<and> c \<noteq> CHR ''b''"
  by (auto simp: is_digit_def int_space_def)

lemma str_nat_digits: "c \<in> set (str_nat n) \<Longrightarrow> is_digit c"
proof (induction n rule: str_nat.induct)
  case (1 n)
  show ?case
  proof (cases "n < 10")
    case True
    with "1.prems" show ?thesis
      by (simp add: str_nat.simps [of n] digit_char_is_digit)
  next
    case False
    with "1.prems" "1.IH" show ?thesis
      by (auto simp: str_nat.simps [of n] digit_char_is_digit)
  qed
qed

lemma str_nat_snoc: "\<exists>ds. str_nat n = ds @ [digit_char (n mod 10)]"
  by (cases "n < 10") (simp_all add: str_nat.simps [of n])

lemma str_nat_not_Nil: "str_nat n \<noteq> []"
  using str_nat_snoc [of n] by auto

lemma digits_value_all_digits:
  "\<forall>c \<in> set ds. is_digit c \<Longrightarrow> digits_value acc ds = Some (digits_fold acc ds)"
  by (induction acc ds rule: digits_value.induct) (auto simp: digits_fold_def)

lemma digits_fold_str_nat: "digits_fold 0 (str_nat n) = n"
proof (induction n rule: str_nat.induct)
  case (1 n)
  show ?case
  proof (cases "n < 10")
    case True
    then show ?thesis
      by (simp add: str_nat.simps [of n] digits_fold_def digit_val_digit_char)
  next
    case False
    with "1.IH" show ?thesis
      by (simp add: str_nat.simps [of n] digits_fold_def digit_val_digit_char)
  qed
qed

lemma unsigned_value_str_nat: "unsigned_value (str_nat n) = Some n"
proof (cases "str_nat n")
  case Nil
  then show ?thesis by (simp add: str_nat_not_Nil)
next
  case (Cons c cs)
  have dig: "\<forall>x \<in> set (c # cs). is_digit x"
    using str_nat_digits [of _ n] Cons by auto
  have "digits_fold (digit_val c) cs = digits_fold 0 (c # cs)"
    by (simp add: digits_fold_def)
  also have "\<dots> = n"
    using digits_fold_str_nat [of n] Cons by simp
  finally show ?thesis
    using Cons dig by (simp add: digits_value_all_digits)
qed

lemma strip_str_nat: "rstrip_space (dropWhile int_space (str_nat n)) = str_nat n"
proof -
  obtain c cs where front: "str_nat n = c # cs"
    using str_nat_not_Nil [of n] by (cases "str_nat n") auto
  obtain ds where tail_eq: "str_nat n = ds @ [digit_char (n mod 10)]"
    using str_nat_snoc by blast
  have "is_digit c" using str_nat_digits [of c n] front by simp
  then have a: "dropWhile int_space (str_nat n) = str_nat n"
    using front is_digit_plain by simp
  have "\<not> int_space (digit_char (n mod 10))"
    using is_digit_plain digit_char_is_digit [of "n mod 10"] by simp
  then have "rstrip_space (str_nat n) = str_nat n"
    by (simp add: rstrip_space_def tail_eq)
  with a show ?thesis by simp
qed

lemma int_of_str_str_nat: "int_of_str (str_nat n) = Inr (int n)"
proof -
  obtain c cs where front: "str_nat n = c # cs"
    using str_nat_not_Nil [of n] by (cases "str_nat n") auto
  have "is_digit c" using str_nat_digits [of c n] front by simp
  then have sign: "c \<noteq> CHR ''-''" "c \<noteq> CHR ''+''" using is_digit_plain by auto
  have stripped: "rstrip_space (dropWhile int_space (str_nat n)) = c # cs"
    using strip_str_nat [of n] front by simp
  have "unsigned_value (c # cs) = Some n"
    using unsigned_value_str_nat [of n] front by simp
  then show ?thesis
    unfolding int_of_str_def stripped using sign by (simp del: unsigned_value.simps)
qed

lemma int_of_str_str_int: "0 \<le> a \<Longrightarrow> int_of_str (str_int a) = Inr a"
  by (simp add: str_int_def int_of_str_str_nat)

lemma str_int_plain: "0 \<le> a \<Longrightarrow> c \<in> set (str_int a) \<Longrightarrow> c \<noteq> CHR ''-'' \<and> c \<noteq> CHR ''b''"
  using str_nat_digits is_digit_plain by (auto simp: str_int_def)

lemma str_int_not_Nil: "str_int a \<noteq> []"
  by (simp add: str_int_def str_nat_not_Nil)

lemma py_replace_no_b: "CHR ''b'' \<notin> set s \<Longrightarrow> py_replace ''bytes='' [] s = s"
  by (induction s) auto

lemma py_replace_bytes: "CHR ''b'' \<notin> set s \<Longrightarrow> py_replace ''bytes='' [] (''bytes='' @ s) = s"
  by (simp add: py_replace_no_b)

lemma py_split_none: "sep \<notin> set a \<Longrightarrow> py_split sep a = [a]"
  by (induction a) auto

lemma py_split_one: "sep \<notin> set a \<Longrightarrow> py_split sep (a @ sep # b) = a # py_split sep b"
  by (induction a) auto

lemma parse_range_closed:
  assumes "0 \<le> a" "0 \<le> b"
  shows "parse_range (Some (''bytes='' @ str_int a @ ''-'' @ str_int b)) n = Inr (a, b)"
proof -
  have "CHR ''b'' \<notin> set (str_int a @ CHR ''-'' # str_int b)"
    using str_int_plain assms by auto
  then have rep: "py_replace ''bytes='' [] (str_int a @ CHR ''-'' # str_int b)
                  = str_int a @ CHR ''-'' # str_int b"
    by (rule py_replace_no_b)
  have sa: "CHR ''-'' \<notin> set (str_int a)" and sb: "CHR ''-'' \<notin> set (str_int b)"
    using str_int_plain assms by auto
  have spl: "py_split CHR ''-'' (str_int a @ CHR ''-'' # str_int b) = [str_int a, str_int b]"
    using py_split_one [OF sa, of "str_int b"] py_split_none [OF sb] by simp
  show ?thesis
    by (simp add: parse_range_def rep spl int_of_str_str_int assms str_int_not_Nil)
qed

lemma parse_range_open:
  assumes "0 \<le> a"
  shows "parse_range (Some (''bytes='' @ str_int a @ ''-'')) n = Inr (a, n - 1)"
proof -
  have "CHR ''b'' \<notin> set (str_int a @ ''-'')"
    using str_int_plain assms by auto
  then have rep: "py_replace ''bytes='' [] (str_int a @ ''-'') = str_int a @ ''-''"
    by (rule py_replace_no_b)
  have sa: "CHR ''-'' \<notin> set (str_int a)"
    using str_int_plain assms by auto
  have spl: "py_split CHR ''-'' (str_int a @ ''-'') = [str_int a, []]"
    using py_split_one [OF sa, of "[]"] by simp
  show ?thesis
    by (simp add: parse_range_def rep spl int_of_str_str_int assms)
qed

section \<open>The generator\<close>

lemmas handler_defs = stream_handler_def stream_handler_try_def resolving_def except_Exception_def
  get_file_properties_def live_properties_def fallback_properties_def parse_range_def
  range_response_def success_headers_def media_streamer_def header_truthy_def
  range_not_satisfiable_def server_error_def not_found_def dict_get_def py_or_def
  int_of_str_def rstrip_space_def int_space_def is_digit_def digit_val_def
  str_int_def str_nat.simps digit_char_def dict_update_def cors_headers_def

lemma stream_loop_no_escape:
  "(\<And>e. Fails e \<in> set evs \<Longrightarrow> is_Exception e) \<Longrightarrow> snd (stream_loop req t evs) = None"
proof (induction req t evs rule: stream_loop.induct)
  case (1 req t)
  show ?case by simp
next
  case (2 req t e rest)
  then show ?case by simp
next
  case (3 req t c rest)
  then show ?case
    by (auto simp: Let_def split: prod.splits)
qed

lemma stream_loop_prefix: "prefix (fst (stream_loop req t evs)) (available evs)"
  by (induction req t evs rule: stream_loop.induct) (auto simp: Let_def split: prod.splits)

lemma transient_is_Exception: "transient_failure e \<Longrightarrow> is_Exception e"
  by (auto simp: transient_failure_def)

lemma total_bytes_prefix: "prefix xs ys \<Longrightarrow> total_bytes xs \<le> total_bytes ys"
  by (auto simp: total_bytes_def prefix_def)

text \<open>
  The generator never yields more than the upstream hands out, and it stops only when the
  upstream is exhausted or fails, or when the count has reached the budget.
\<close>

lemma stream_loop_at_most_available:
  "total_bytes (fst (stream_loop req t evs)) \<le> total_bytes (available evs)"
  by (rule total_bytes_prefix [OF stream_loop_prefix])

lemma stream_loop_covers_budget:
  "fst (stream_loop req t evs) = available evs
   \<or> req \<le> t + int (total_bytes (fst (stream_loop req t evs)))"
  by (induction req t evs rule: stream_loop.induct)
     (auto simp: Let_def total_bytes_def split: prod.splits)

text \<open>
  When the upstream hands out no more than the budget that is left, the generator yields
  exactly as many bytes as the upstream hands out before it fails or ends.
\<close>

lemma stream_loop_exact_within_budget:
  assumes "int (total_bytes (available evs)) \<le> req - t"
  shows "total_bytes (fst (stream_loop req t evs)) = total_bytes (available evs)"
proof -
  have upper: "total_bytes (fst (stream_loop req t evs)) \<le> total_bytes (available evs)"
    by (rule stream_loop_at_most_available)
  from stream_loop_covers_budget [of req t evs] show ?thesis
  proof
    assume "fst (stream_loop req t evs) = available evs"
    then show ?thesis by simp
  next
    assume "req \<le> t + int (total_bytes (fst (stream_loop req t evs)))"
    with assms upper show ?thesis by linarith
  qed
qed

text \<open>
  C1. The claim: the bytes yielded to the body are exactly the minimum of \<open>req_length\<close>
  and what the upstream has, and never more than \<open>req_length\<close>. The generator yields
  each chunk whole before it counts it: for a file of ten bytes that the upstream hands
  out as one chunk, the request \<^verbatim>\<open>Range: bytes=0-1\<close> is answered with
  \<^verbatim>\<open>Content-Length: 2\<close> and a body of ten bytes.
\<close>

theorem small_file_overshoot:
  "stream_handler small_file_request =
     Inr \<lparr>status = 206,
          headers = cors_headers @
            [(''Content-Type'', ''video/mp4''),
             (''Content-Range'', ''bytes 0-1/10''),
             (''Content-Length'', ''2''),
             (''Content-Disposition'', ''inline; filename='' @ [CHR 0x22] @ ''a.bin'' @ [CHR 0x22]),
             (''Accept-Ranges'', ''bytes'')],
          body = Stream [[0, 1, 2, 3, 4, 5, 6, 7, 8, 9]] None\<rparr>
   \<and> total_bytes [[0, 1, 2, 3, 4, 5, 6, 7, 8, 9 :: 8 word]] = 10"
  by (simp add: small_file_request_def handler_defs total_bytes_def)

text \<open>
  C8. When every failure the upstream raises while it is iterated is a rate-limit signal,
  an invalid offset, a protocol error or a transport error, the generator lets no exception
  escape: it ends, and what it has yielded is a prefix of what the upstream handed out
  before the failure. When the message has to be fetched again and that fetch raises, the
  generator ends with nothing yielded.
\<close>

theorem media_streamer_swallows:
  assumes "\<And>m e. Fails e \<in> set (stream_media rq m from_bytes req_length) \<Longrightarrow> transient_failure e"
  shows "snd (media_streamer rq msg_id mo from_bytes req_length) = None
       \<and> (\<forall>m. mo = Some m \<or> (mo = None \<and> get_messages_again rq msg_id = Inr m) \<longrightarrow>
              prefix (fst (media_streamer rq msg_id mo from_bytes req_length))
                     (available (stream_media rq m from_bytes req_length)))
       \<and> (\<forall>e. mo = None \<and> get_messages_again rq msg_id = Inl e \<longrightarrow>
              fst (media_streamer rq msg_id mo from_bytes req_length) = [])"
proof -
  have quiet: "snd (stream_loop req_length 0 (stream_media rq m from_bytes req_length)) = None" for m
    using assms transient_is_Exception by (intro stream_loop_no_escape) blast
  show ?thesis
    by (auto simp: media_streamer_def quiet stream_loop_prefix split: option.splits sum.splits)
qed

theorem media_streamer_swallows_witness:
  "snd (media_streamer example_request 7 (Some example_message) 0 100) = None
   \<and> prefix (fst (media_streamer example_request 7 (Some example_message) 0 100))
            (available (stream_media example_request example_message 0 100))
   \<and> fst (media_streamer example_request 7 (Some example_message) 0 100) = [[1, 2, 3], [4, 5, 6]]"
proof -
  have h: "\<And>m e. Fails e \<in> set (stream_media example_request m 0 100) \<Longrightarrow> transient_failure e"
    by (auto simp: example_request_def example_events_def transient_failure_def)
  show ?thesis
    using h media_streamer_swallows [of example_request 0 100 7 "Some example_message", OF h]
    by (simp add: example_request_def example_events_def media_streamer_def)
qed

section \<open>The handler\<close>

lemma success_headers_eq:
  "success_headers rq p f u =
     cors_headers @
       [(''Content-Type'', py_format (mime_type p)),
        (''Content-Range'', ''bytes '' @ str_int f @ ''-'' @ str_int u @ ''/'' @ str_int (file_size p)),
        (''Content-Length'', str_int (u - f + 1)),
        (''Content-Disposition'',
           (if py_in ''/dl/'' (path rq) then ''attachment'' else ''inline'')
             @ ''; filename='' @ [CHR 0x22] @ py_format (file_name p) @ [CHR 0x22]),
        (''Accept-Ranges'', ''bytes'')]"
  by (simp add: success_headers_def dict_update_def cors_headers_def Let_def)

lemma success_headers_length: "map_of (success_headers rq p f u) ''Content-Length'' = Some (str_int (u - f + 1))"
  by (simp add: success_headers_eq cors_headers_def)

lemma success_headers_range:
  "map_of (success_headers rq p f u) ''Content-Range''
     = Some (''bytes '' @ str_int f @ ''-'' @ str_int u @ ''/'' @ str_int (file_size p))"
  by (simp add: success_headers_eq cors_headers_def)

lemma cors_in_success_headers: "set cors_headers \<subseteq> set (success_headers rq p f u)"
  by (auto simp: success_headers_eq)

lemma int_of_str_error: "int_of_str s = Inl e \<Longrightarrow> e = ValueError"
  by (auto simp: int_of_str_def Let_def split: prod.splits option.splits)

lemma parse_range_error: "parse_range h n = Inl e \<Longrightarrow> e = ValueError"
  by (auto simp: parse_range_def split: option.splits if_splits list.splits sum.splits
           dest: int_of_str_error)

lemma handler_after_parse:
  "resolving rq = Next (msg_id, p) \<Longrightarrow> parse_range (range_header rq) (file_size p) = Inr (f, u)
   \<Longrightarrow> stream_handler rq = Inr (range_response rq msg_id p f u)"
  by (simp add: stream_handler_def stream_handler_try_def except_Exception_def)

lemma handler_parse_error:
  "resolving rq = Next (msg_id, p) \<Longrightarrow> parse_range (range_header rq) (file_size p) = Inl e
   \<Longrightarrow> stream_handler rq = Inr (server_error ValueError)"
  by (frule parse_range_error)
     (simp add: stream_handler_def stream_handler_try_def except_Exception_def)

lemma properties_ignore_stream:
  "get_file_properties (rq\<lparr>get_messages_again := ga, stream_media := sm\<rparr>) file_data msg_id
     = get_file_properties rq file_data msg_id"
  by (simp add: get_file_properties_def live_properties_def)

lemma resolving_ignores_stream:
  "resolving (rq\<lparr>get_messages_again := ga, stream_media := sm\<rparr>) = resolving rq"
  by (simp add: resolving_def properties_ignore_stream split: sum.splits option.splits)

lemma parse_range_absent:
  "h = None \<or> h = Some [] \<Longrightarrow> parse_range h n = Inr (0, n - 1)"
  by (auto simp: parse_range_def)

lemma rejected_whatever_streams:
  assumes "resolving rq = Next (msg_id, p)"
    and "parse_range (range_header rq) (file_size p) = Inr (f, u)"
    and "u \<ge> file_size p \<or> f < 0 \<or> u < f"
  shows "stream_handler (rq\<lparr>get_messages_again := ga, stream_media := sm\<rparr>)
           = Inr (range_not_satisfiable (file_size p))"
proof -
  let ?rq = "rq\<lparr>get_messages_again := ga, stream_media := sm\<rparr>"
  have "stream_handler ?rq = Inr (range_response ?rq msg_id p f u)"
    using assms(1,2) by (intro handler_after_parse) (simp_all add: resolving_ignores_stream)
  with assms(3) show ?thesis
    by (simp add: range_response_def)
qed

lemma resolving_fallback:
  assumes "get_file rq (match_id rq) = Inr (Some file_data)" and "file_data \<noteq> []"
    and "py_int (py_or (dict_get file_data ''file_id'' PNone) (dict_get file_data ''message_id'' PNone))
           = Inr msg_id"
    and "live_properties rq msg_id = Inl e" and "is_Exception e"
    and "py_int (dict_get file_data ''file_size'' (PInt 0)) = Inr n"
  shows "resolving rq = Next (msg_id,
            \<lparr>file_size = n,
             file_name = dict_get file_data ''file_name'' (PStr ''video.mp4''),
             mime_type = PStr ''video/mp4'',
             msg = None\<rparr>)"
  using assms by (simp add: resolving_def get_file_properties_def fallback_properties_def)

lemma example_resolving: "resolving (example_request\<lparr>range_header := h\<rparr>) = Next (7, example_properties)"
  by (simp add: example_request_def example_message_def example_properties_def resolving_def
        get_file_properties_def live_properties_def dict_get_def py_or_def)

lemma range_response_status:
  "status (range_response rq msg_id p f u) = 416
     \<longleftrightarrow> (u \<ge> file_size p \<or> f < 0 \<or> u < f)"
  by (simp add: range_response_def range_not_satisfiable_def Let_def)

lemma range_response_cases:
  "(range_response rq msg_id p f u = range_not_satisfiable (file_size p))
   \<or> (status (range_response rq msg_id p f u) \<in> {200, 206}
       \<and> headers (range_response rq msg_id p f u) = success_headers rq p f u)"
  by (simp add: range_response_def Let_def)

lemma cors_keys_not_content_range: "map_of cors_headers ''Content-Range'' = None"
  by (simp add: cors_headers_def)

lemma stream_handler_cases:
  assumes "stream_handler rq = Inr r"
  shows "(status r = 404 \<and> headers r = cors_headers)
       \<or> (status r = 500 \<and> headers r = cors_headers)
       \<or> (\<exists>msg_id p. resolving rq = Next (msg_id, p) \<and> r = range_not_satisfiable (file_size p))
       \<or> (status r \<in> {200, 206} \<and> set cors_headers \<subseteq> set (headers r))"
proof (cases "resolving rq")
  case (Raised e)
  with assms show ?thesis
    by (auto simp: stream_handler_def stream_handler_try_def except_Exception_def server_error_def
             split: if_splits)
next
  case (Returned r')
  then have "r' = not_found"
    by (auto simp: resolving_def split: sum.splits option.splits if_splits)
  with Returned assms show ?thesis
    by (auto simp: stream_handler_def stream_handler_try_def except_Exception_def not_found_def)
next
  case (Next mp)
  obtain msg_id p where mp: "mp = (msg_id, p)" by (cases mp)
  show ?thesis
  proof (cases "parse_range (range_header rq) (file_size p)")
    case (Inl e)
    then have "stream_handler rq = Inr (server_error ValueError)"
      using Next mp by (intro handler_parse_error) auto
    with assms show ?thesis by (auto simp: server_error_def)
  next
    case (Inr fu)
    obtain f u where fu: "fu = (f, u)" by (cases fu)
    have "stream_handler rq = Inr (range_response rq msg_id p f u)"
      using Next mp Inr fu by (intro handler_after_parse) auto
    with assms have r: "r = range_response rq msg_id p f u" by simp
    show ?thesis
      using range_response_cases [of rq msg_id p f u] Next mp cors_in_success_headers [of rq p f u]
      unfolding r by auto
  qed
qed

lemma api_handler_cases:
  assumes "api_handler rq = Inr r"
  shows "status r \<in> {200, 404, 500} \<and> headers r = cors_headers"
  using assms
  by (auto simp: api_handler_def api_handler_try_def except_Exception_def Let_def
           split: sum.splits option.splits if_splits)

lemma malformed_parse_fails:
  "h \<noteq> [] \<Longrightarrow> malformed_range h \<Longrightarrow> \<exists>e. parse_range (Some h) n = Inl e"
  by (auto simp: malformed_range_def parse_range_def isl_def
           split: list.splits sum.splits if_splits)

section \<open>Range handling\<close>

text \<open>
  C3. For a request that has reached range handling and whose range has been read as the
  numbers \<open>f\<close> and \<open>u\<close>, the handler answers 416 exactly when \<open>u \<ge> file_size\<close> or
  \<open>f < 0\<close> or \<open>u < f\<close>. The 416 answer has the one header
  \<^verbatim>\<open>Content-Range: bytes */file_size\<close> and a fixed text as body, and it is the same whatever
  the upstream would stream or answer to a second fetch: the chunk stream plays no part in
  it. Otherwise the answer has status 200 or 206, the success headers, and the generator as
  body.
\<close>

theorem range_validation:
  assumes "resolving rq = Next (msg_id, p)"
    and "parse_range (range_header rq) (file_size p) = Inr (f, u)"
  shows "\<exists>r. stream_handler rq = Inr r
     \<and> (status r = 416) = (u \<ge> file_size p \<or> f < 0 \<or> u < f)
     \<and> (u \<ge> file_size p \<or> f < 0 \<or> u < f \<longrightarrow>
          headers r = [(''Content-Range'', ''bytes */'' @ str_int (file_size p))]
          \<and> body r = Text ''416: Range not satisfiable''
          \<and> (\<forall>ga sm. stream_handler (rq\<lparr>get_messages_again := ga, stream_media := sm\<rparr>) = Inr r))
     \<and> (\<not> (u \<ge> file_size p \<or> f < 0 \<or> u < f) \<longrightarrow>
          status r = (if header_truthy (range_header rq) then 206 else 200)
          \<and> headers r = success_headers rq p f u
          \<and> (case media_streamer rq msg_id (msg p) f (u - f + 1) of
                (chunks, escaped) \<Rightarrow> body r = Stream chunks escaped))"
proof -
  let ?rejected = "u \<ge> file_size p \<or> f < 0 \<or> u < f"
  have here: "stream_handler rq = Inr (range_response rq msg_id p f u)"
    using assms by (rule handler_after_parse)
  show ?thesis
  proof (cases ?rejected)
    case True
    have "stream_handler (rq\<lparr>get_messages_again := ga, stream_media := sm\<rparr>)
            = Inr (range_response rq msg_id p f u)" for ga sm
    proof -
      have "stream_handler (rq\<lparr>get_messages_again := ga, stream_media := sm\<rparr>)
            = Inr (range_response (rq\<lparr>get_messages_again := ga, stream_media := sm\<rparr>) msg_id p f u)"
        using assms by (intro handler_after_parse) (simp_all add: resolving_ignores_stream)
      then show ?thesis
        using True by (simp add: range_response_def)
    qed
    with True here show ?thesis
      by (simp add: range_response_def range_not_satisfiable_def)
  next
    case False
    with here show ?thesis
      by (simp add: range_response_def Let_def split: prod.splits)
  qed
qed

theorem range_validation_witness:
  "resolving (example_request\<lparr>range_header := Some ''bytes=999-1500''\<rparr>) = Next (7, example_properties)
   \<and> parse_range (Some ''bytes=999-1500'') 1000 = Inr (999, 1500)
   \<and> stream_handler (example_request\<lparr>range_header := Some ''bytes=999-1500''\<rparr>)
       = Inr \<lparr>status = 416, headers = [(''Content-Range'', ''bytes */1000'')],
              body = Text ''416: Range not satisfiable''\<rparr>"
proof -
  let ?rq = "example_request\<lparr>range_header := Some ''bytes=999-1500''\<rparr>"
  have h1: "resolving ?rq = Next (7, example_properties)"
    by (rule example_resolving)
  have p: "parse_range (Some ''bytes=999-1500'') 1000 = Inr (999, 1500)"
    by (simp add: parse_range_def int_of_str_def rstrip_space_def int_space_def is_digit_def digit_val_def)
  then have h2: "parse_range (range_header ?rq) (file_size example_properties) = Inr (999, 1500)"
    by (simp add: example_properties_def)
  have dec: "str_int 1000 = ''1000''"
    by (simp add: str_int_def str_nat.simps digit_char_def)
  from range_validation [OF h1 h2] obtain r where
    "stream_handler ?rq = Inr r" "status r = 416"
    "headers r = [(''Content-Range'', ''bytes */'' @ str_int (file_size example_properties))]"
    "body r = Text ''416: Range not satisfiable''"
    by (auto simp: example_properties_def)
  then have "stream_handler ?rq = Inr \<lparr>status = 416, headers = [(''Content-Range'', ''bytes */1000'')],
              body = Text ''416: Range not satisfiable''\<rparr>"
    by (cases r) (simp add: example_properties_def dec)
  with h1 p show ?thesis by simp
qed

text \<open>
  C5. For a request that has reached range handling with a file size above zero and with
  no \<^verbatim>\<open>Range\<close> header, or an empty one, the interval is \<open>[0, file_size - 1]\<close>, the status is
  200, \<^verbatim>\<open>Content-Length\<close> is the file size and \<^verbatim>\<open>Content-Range\<close> is
  \<^verbatim>\<open>bytes 0-(file_size - 1)/file_size\<close>.
\<close>

theorem full_content:
  assumes "resolving rq = Next (msg_id, p)"
    and "0 < file_size p"
    and "range_header rq = None \<or> range_header rq = Some []"
  shows "parse_range (range_header rq) (file_size p) = Inr (0, file_size p - 1)
     \<and> (\<exists>r. stream_handler rq = Inr r
          \<and> status r = 200
          \<and> map_of (headers r) ''Content-Length'' = Some (str_int (file_size p))
          \<and> map_of (headers r) ''Content-Range''
              = Some (''bytes 0-'' @ str_int (file_size p - 1) @ ''/'' @ str_int (file_size p)))"
proof -
  have parsed: "parse_range (range_header rq) (file_size p) = Inr (0, file_size p - 1)"
    using assms(3) by (rule parse_range_absent)
  have falsy: "\<not> header_truthy (range_header rq)"
    using assms(3) by (auto simp: header_truthy_def)
  have zero: "str_int 0 = ''0''"
    by (simp add: str_int_def str_nat.simps digit_char_def)
  have "stream_handler rq = Inr (range_response rq msg_id p 0 (file_size p - 1))"
    using assms(1) parsed by (rule handler_after_parse)
  with assms(2) falsy parsed show ?thesis
    by (simp add: range_response_def success_headers_length success_headers_range zero)
qed

theorem full_content_witness:
  "resolving example_request = Next (7, example_properties)
   \<and> parse_range (range_header example_request) 1000 = Inr (0, 999)
   \<and> map_option status (case stream_handler example_request of Inr r \<Rightarrow> Some r | Inl e \<Rightarrow> None) = Some 200
   \<and> map_option (\<lambda>r. map_of (headers r) ''Content-Length'')
        (case stream_handler example_request of Inr r \<Rightarrow> Some r | Inl e \<Rightarrow> None) = Some (Some ''1000'')
   \<and> map_option (\<lambda>r. map_of (headers r) ''Content-Range'')
        (case stream_handler example_request of Inr r \<Rightarrow> Some r | Inl e \<Rightarrow> None) = Some (Some ''bytes 0-999/1000'')"
proof -
  have h1: "resolving example_request = Next (7, example_properties)"
    using example_resolving [of None] by (simp add: example_request_def)
  have h2: "0 < file_size example_properties"
    by (simp add: example_properties_def)
  have h3: "range_header example_request = None \<or> range_header example_request = Some []"
    by (simp add: example_request_def)
  have dec: "str_int 1000 = ''1000''" "str_int 999 = ''999''"
    by (simp_all add: str_int_def str_nat.simps digit_char_def)
  show ?thesis
    using h1 full_content [OF h1 h2 h3]
    by (auto simp: example_properties_def dec)
qed

text \<open>
  C6. For a request that has reached range handling with the header \<^verbatim>\<open>bytes=a-b\<close>,
  where \<open>0 \<le> a \<le> b < file_size\<close> and the numbers are written in decimal, the interval read
  is \<open>[a, b]\<close>, the status is 206, \<^verbatim>\<open>Content-Length\<close> is \<open>b - a + 1\<close> and
  \<^verbatim>\<open>Content-Range\<close> is \<^verbatim>\<open>bytes a-b/file_size\<close>.
\<close>

theorem closed_range:
  assumes "resolving rq = Next (msg_id, p)"
    and "0 \<le> a" and "a \<le> b" and "b < file_size p"
    and "range_header rq = Some (''bytes='' @ str_int a @ ''-'' @ str_int b)"
  shows "parse_range (range_header rq) (file_size p) = Inr (a, b)
     \<and> (\<exists>r. stream_handler rq = Inr r
          \<and> status r = 206
          \<and> map_of (headers r) ''Content-Length'' = Some (str_int (b - a + 1))
          \<and> map_of (headers r) ''Content-Range''
              = Some (''bytes '' @ str_int a @ ''-'' @ str_int b @ ''/'' @ str_int (file_size p)))"
proof -
  have parsed: "parse_range (range_header rq) (file_size p) = Inr (a, b)"
    using assms by (simp add: parse_range_closed del: append.simps)
  have present: "header_truthy (range_header rq)"
    using assms(5) by (simp add: header_truthy_def)
  have "stream_handler rq = Inr (range_response rq msg_id p a b)"
    using assms(1) parsed by (rule handler_after_parse)
  with assms(2-4) present parsed show ?thesis
    by (simp add: range_response_def success_headers_length success_headers_range)
qed

theorem closed_range_witness:
  "resolving (example_request\<lparr>range_header := Some ''bytes=500-599''\<rparr>) = Next (7, example_properties)
   \<and> ''bytes='' @ str_int 500 @ ''-'' @ str_int 599 = ''bytes=500-599''
   \<and> parse_range (Some ''bytes=500-599'') 1000 = Inr (500, 599)
   \<and> map_option status
        (case stream_handler (example_request\<lparr>range_header := Some ''bytes=500-599''\<rparr>) of
           Inr r \<Rightarrow> Some r | Inl e \<Rightarrow> None) = Some 206
   \<and> map_option (\<lambda>r. map_of (headers r) ''Content-Length'')
        (case stream_handler (example_request\<lparr>range_header := Some ''bytes=500-599''\<rparr>) of
           Inr r \<Rightarrow> Some r | Inl e \<Rightarrow> None) = Some (Some ''100'')
   \<and> map_option (\<lambda>r. map_of (headers r) ''Content-Range'')
        (case stream_handler (example_request\<lparr>range_header := Some ''bytes=500-599''\<rparr>) of
           Inr r \<Rightarrow> Some r | Inl e \<Rightarrow> None) = Some (Some ''bytes 500-599/1000'')"
proof -
  let ?rq = "example_request\<lparr>range_header := Some ''bytes=500-599''\<rparr>"
  have dec: "str_int 500 = ''500''" "str_int 599 = ''599''" "str_int 100 = ''100''"
       "str_int 1000 = ''1000''"
    by (simp_all add: str_int_def str_nat.simps digit_char_def)
  have h1: "resolving ?rq = Next (7, example_properties)"
    by (rule example_resolving)
  have h5: "range_header ?rq = Some (''bytes='' @ str_int 500 @ ''-'' @ str_int 599)"
    by (simp add: dec)
  have h4: "599 < file_size example_properties"
    by (simp add: example_properties_def)
  show ?thesis
    using h1 closed_range [OF h1 _ _ h4 h5]
    by (auto simp: example_properties_def dec)
qed

text \<open>
  C7. For the open-ended header \<^verbatim>\<open>bytes=a-\<close> with \<open>0 \<le> a < n\<close>, where \<open>n\<close> is
  the file size, the interval read is \<open>[a, n - 1]\<close>, and the validation accepts it.
\<close>

theorem open_ended_range:
  assumes "0 \<le> a" and "a < n"
  shows "parse_range (Some (''bytes='' @ str_int a @ ''-'')) n = Inr (a, n - 1)
     \<and> \<not> (n - 1 \<ge> n \<or> a < 0 \<or> n - 1 < a)"
  using assms by (simp add: parse_range_open del: append.simps)

theorem open_ended_range_witness:
  "''bytes='' @ str_int 500 @ ''-'' = ''bytes=500-''
   \<and> parse_range (Some ''bytes=500-'') 1000 = Inr (500, 999)"
proof -
  have dec: "str_int 500 = ''500''"
    by (simp add: str_int_def str_nat.simps digit_char_def)
  show ?thesis
    using open_ended_range [of 500 1000] by (simp add: dec)
qed

text \<open>
  C10. A 416 answer of the stream handler carries the single header \<^verbatim>\<open>Content-Range: bytes */file_size\<close>
  and none of the CORS headers. Every other answer of the stream handler (200, 206, 404,
  500) and every answer of the API handler, the root handler and the preflight handler
  carries all the CORS headers.
\<close>

theorem range_error_headers:
  "(stream_handler rq = Inr r \<longrightarrow>
      (status r = 416 \<longrightarrow>
         (\<exists>msg_id p. resolving rq = Next (msg_id, p)
            \<and> headers r = [(''Content-Range'', ''bytes */'' @ str_int (file_size p))])
         \<and> (\<forall>h \<in> set cors_headers. map_of (headers r) (fst h) = None))
      \<and> (status r \<noteq> 416 \<longrightarrow>
         status r \<in> {200, 206, 404, 500} \<and> set cors_headers \<subseteq> set (headers r)))
   \<and> (api_handler rq = Inr r \<longrightarrow> status r \<in> {200, 404, 500} \<and> set cors_headers \<subseteq> set (headers r))
   \<and> (root_route_handler rq = Inr r \<longrightarrow> status r = 200 \<and> set cors_headers \<subseteq> set (headers r))
   \<and> (stream_options_handler rq = Inr r \<longrightarrow> status r = 200 \<and> set cors_headers \<subseteq> set (headers r))"
proof (intro conjI impI)
  assume a: "stream_handler rq = Inr r" and s: "status r = 416"
  from stream_handler_cases [OF a] s
  obtain msg_id p where res: "resolving rq = Next (msg_id, p)"
    and r: "r = range_not_satisfiable (file_size p)"
    by auto
  then show "\<exists>msg_id p. resolving rq = Next (msg_id, p)
            \<and> headers r = [(''Content-Range'', ''bytes */'' @ str_int (file_size p))]"
    by (auto simp: range_not_satisfiable_def)
  show "\<forall>h \<in> set cors_headers. map_of (headers r) (fst h) = None"
    unfolding r by (simp add: range_not_satisfiable_def cors_headers_def)
next
  assume a: "stream_handler rq = Inr r" and s: "status r \<noteq> 416"
  from stream_handler_cases [OF a] s
  show "status r \<in> {200, 206, 404, 500}"
    by (auto simp: range_not_satisfiable_def)
  from stream_handler_cases [OF a] s
  show "set cors_headers \<subseteq> set (headers r)"
    by (auto simp: range_not_satisfiable_def)
next
  assume "api_handler rq = Inr r"
  from api_handler_cases [OF this]
  show "status r \<in> {200, 404, 500}" and "set cors_headers \<subseteq> set (headers r)"
    by auto
next
  assume "root_route_handler rq = Inr r"
  then show "status r = 200" and "set cors_headers \<subseteq> set (headers r)"
    by (auto simp: root_route_handler_def)
next
  assume "stream_options_handler rq = Inr r"
  then show "status r = 200" and "set cors_headers \<subseteq> set (headers r)"
    by (auto simp: stream_options_handler_def)
qed

theorem range_error_headers_witness:
  "stream_handler (example_request\<lparr>range_header := Some ''bytes=5-2''\<rparr>)
     = Inr \<lparr>status = 416, headers = [(''Content-Range'', ''bytes */1000'')],
            body = Text ''416: Range not satisfiable''\<rparr>
   \<and> map_of [(''Content-Range'', ''bytes */1000'')] ''Access-Control-Allow-Origin'' = None
   \<and> api_handler (example_request\<lparr>match_id := ''zzz''\<rparr>)
     = Inr \<lparr>status = 404, headers = cors_headers, body = Json [(''error'', PStr ''File not found'')]\<rparr>
   \<and> set cors_headers \<subseteq> set (headers \<lparr>status = 404, headers = cors_headers,
                                            body = Json [(''error'', PStr ''File not found'')]\<rparr>)"
proof -
  let ?rq = "example_request\<lparr>range_header := Some ''bytes=5-2''\<rparr>"
  let ?r = "\<lparr>status = 416, headers = [(''Content-Range'', ''bytes */1000'')],
            body = Text ''416: Range not satisfiable''\<rparr>"
  let ?rq' = "example_request\<lparr>match_id := ''zzz''\<rparr>"
  let ?r' = "\<lparr>status = 404, headers = cors_headers, body = Json [(''error'', PStr ''File not found'')]\<rparr>"
  have h: "stream_handler ?rq = Inr ?r"
    by (simp add: example_request_def example_message_def handler_defs)
  have h': "api_handler ?rq' = Inr ?r'"
    by (simp add: example_request_def api_handler_def api_handler_try_def except_Exception_def)
  show ?thesis
    using h h' range_error_headers [of ?rq ?r] range_error_headers [of ?rq' ?r']
    by (simp add: cors_headers_def)
qed

text \<open>
  C2. The claim: a \<^verbatim>\<open>Range\<close> header that is present but malformed is answered with
  416. The handler has no branch for it: the \<open>ValueError\<close> of the unpacking or of
  \<^verbatim>\<open>int\<close> reaches the outer \<^verbatim>\<open>except Exception\<close>, and the answer is 500. The header
  \<^verbatim>\<open>bytes=abc-def\<close> is answered with 500.
\<close>

theorem malformed_range_is_500_counterexample:
  "stream_handler (example_request\<lparr>range_header := Some ''bytes=abc-def''\<rparr>)
     = Inr \<lparr>status = 500, headers = cors_headers, body = ServerErrorText ValueError\<rparr>"
  by (simp add: example_request_def example_message_def handler_defs)

text \<open>
  C2, as amended. For a request that has reached range handling, a non-empty
  \<^verbatim>\<open>Range\<close> header that is malformed is answered with status 500, the CORS headers and
  the text of the \<open>ValueError\<close>.
\<close>

theorem malformed_range_server_error:
  assumes "resolving rq = Next (msg_id, p)"
    and "range_header rq = Some h" and "h \<noteq> []" and "malformed_range h"
  shows "stream_handler rq = Inr \<lparr>status = 500, headers = cors_headers, body = ServerErrorText ValueError\<rparr>"
proof -
  obtain e where "parse_range (range_header rq) (file_size p) = Inl e"
    using malformed_parse_fails [OF assms(3,4)] assms(2) by auto
  with assms(1) have "stream_handler rq = Inr (server_error ValueError)"
    by (rule handler_parse_error)
  then show ?thesis by (simp add: server_error_def)
qed

theorem malformed_range_server_error_witness:
  "resolving (example_request\<lparr>range_header := Some ''bytes=-500''\<rparr>) = Next (7, example_properties)
   \<and> malformed_range ''bytes=-500''
   \<and> stream_handler (example_request\<lparr>range_header := Some ''bytes=-500''\<rparr>)
       = Inr \<lparr>status = 500, headers = cors_headers, body = ServerErrorText ValueError\<rparr>"
proof -
  let ?rq = "example_request\<lparr>range_header := Some ''bytes=-500''\<rparr>"
  have h1: "resolving ?rq = Next (7, example_properties)"
    by (rule example_resolving)
  have h2: "range_header ?rq = Some ''bytes=-500''" by simp
  have h3: "''bytes=-500'' \<noteq> []" by simp
  have h4: "malformed_range ''bytes=-500''"
    by (simp add: malformed_range_def int_of_str_def rstrip_space_def int_space_def is_digit_def)
  show ?thesis
    using h1 h4 malformed_range_server_error [OF h1 h2 h3 h4] by simp
qed

section \<open>The fallback to the stored record\<close>

text \<open>
  C4. The claim: whenever the live fetch fails the request is not aborted. The fallback
  converts the stored \<^verbatim>\<open>file_size\<close> with \<^verbatim>\<open>int\<close> inside the \<^verbatim>\<open>except\<close> branch; a
  stored value that \<^verbatim>\<open>int\<close> rejects (here \<^verbatim>\<open>None\<close>) raises there, and the request ends
  with 500.
\<close>

theorem fallback_aborts_counterexample:
  "live_properties (offline_request [(''file_id'', PInt 7), (''file_size'', PNone)] None) 7 = Inl FloodWait
   \<and> stream_handler (offline_request [(''file_id'', PInt 7), (''file_size'', PNone)] None)
       = Inr \<lparr>status = 500, headers = cors_headers, body = ServerErrorText TypeError\<rparr>"
  by (simp add: offline_request_def handler_defs)

text \<open>
  C4, as amended. When the live fetch raises an exception that derives from
  \<open>Exception\<close> and the stored \<^verbatim>\<open>file_size\<close> is absent (then 0) or is accepted by
  \<^verbatim>\<open>int\<close>, the handler goes on with the stored size, the stored \<^verbatim>\<open>file_name\<close> (or
  \<^verbatim>\<open>video.mp4\<close> when the key is absent), the type \<^verbatim>\<open>video/mp4\<close> and no message: the
  answer is the one range handling gives for these properties, and it is not the 404
  answer.
\<close>

theorem fallback_properties_used:
  assumes "get_file rq (match_id rq) = Inr (Some file_data)" and "file_data \<noteq> []"
    and "py_int (py_or (dict_get file_data ''file_id'' PNone) (dict_get file_data ''message_id'' PNone))
           = Inr msg_id"
    and "live_properties rq msg_id = Inl e" and "is_Exception e"
    and "py_int (dict_get file_data ''file_size'' (PInt 0)) = Inr n"
  shows "resolving rq = Next (msg_id,
            \<lparr>file_size = n,
             file_name = dict_get file_data ''file_name'' (PStr ''video.mp4''),
             mime_type = PStr ''video/mp4'',
             msg = None\<rparr>)
     \<and> stream_handler rq =
         (case parse_range (range_header rq) n of
            Inl e' \<Rightarrow> Inr (server_error e')
          | Inr (from_bytes, until_bytes) \<Rightarrow>
              Inr (range_response rq msg_id
                     \<lparr>file_size = n,
                      file_name = dict_get file_data ''file_name'' (PStr ''video.mp4''),
                      mime_type = PStr ''video/mp4'',
                      msg = None\<rparr> from_bytes until_bytes))
     \<and> stream_handler rq \<noteq> Inr not_found"
proof -
  let ?p = "\<lparr>file_size = n,
             file_name = dict_get file_data ''file_name'' (PStr ''video.mp4''),
             mime_type = PStr ''video/mp4'',
             msg = None\<rparr>"
  have res: "resolving rq = Next (msg_id, ?p)"
    using assms by (simp add: resolving_def get_file_properties_def fallback_properties_def)
  have run: "stream_handler rq =
         (case parse_range (range_header rq) n of
            Inl e' \<Rightarrow> Inr (server_error e')
          | Inr (from_bytes, until_bytes) \<Rightarrow> Inr (range_response rq msg_id ?p from_bytes until_bytes))"
  proof (cases "parse_range (range_header rq) n")
    case (Inl e')
    then have "e' = ValueError" by (rule parse_range_error)
    with Inl res show ?thesis
      by (simp add: stream_handler_def stream_handler_try_def except_Exception_def)
  next
    case (Inr fu)
    with res show ?thesis
      by (simp add: stream_handler_def stream_handler_try_def except_Exception_def split: prod.splits)
  qed
  have "stream_handler rq \<noteq> Inr not_found"
    unfolding run
    by (auto simp: server_error_def not_found_def range_response_def range_not_satisfiable_def Let_def
             split: sum.splits prod.splits)
  with res run show ?thesis by simp
qed

theorem fallback_properties_used_witness:
  "live_properties (offline_request [(''file_id'', PInt 7), (''file_size'', PStr ''1000'')] None) 7
     = Inl FloodWait
   \<and> resolving (offline_request [(''file_id'', PInt 7), (''file_size'', PStr ''1000'')] None)
     = Next (7, \<lparr>file_size = 1000, file_name = PStr ''video.mp4'',
                 mime_type = PStr ''video/mp4'', msg = None\<rparr>)
   \<and> stream_handler (offline_request [(''file_id'', PInt 7), (''file_size'', PStr ''1000'')] None)
     = Inr (range_response (offline_request [(''file_id'', PInt 7), (''file_size'', PStr ''1000'')] None)
              7 \<lparr>file_size = 1000, file_name = PStr ''video.mp4'',
                  mime_type = PStr ''video/mp4'', msg = None\<rparr> 0 999)
   \<and> status (range_response (offline_request [(''file_id'', PInt 7), (''file_size'', PStr ''1000'')] None)
              7 \<lparr>file_size = 1000, file_name = PStr ''video.mp4'',
                  mime_type = PStr ''video/mp4'', msg = None\<rparr> 0 999) = 200"
proof -
  let ?fd = "[(''file_id'', PInt 7), (''file_size'', PStr ''1000'')]"
  let ?rq = "offline_request ?fd None"
  have h1: "get_file ?rq (match_id ?rq) = Inr (Some ?fd)" by (simp add: offline_request_def)
  have h2: "?fd \<noteq> []" by simp
  have h3: "py_int (py_or (dict_get ?fd ''file_id'' PNone) (dict_get ?fd ''message_id'' PNone)) = Inr 7"
    by (simp add: dict_get_def py_or_def)
  have h4: "live_properties ?rq 7 = Inl FloodWait"
    by (simp add: offline_request_def live_properties_def)
  have h5: "is_Exception FloodWait" by simp
  have h6: "py_int (dict_get ?fd ''file_size'' (PInt 0)) = Inr 1000"
    by (simp add: dict_get_def int_of_str_def rstrip_space_def int_space_def is_digit_def digit_val_def)
  have hdr: "range_header ?rq = None" by (simp add: offline_request_def)
  show ?thesis
    using h4 fallback_properties_used [OF h1 h2 h3 h4 h5 h6]
    by (simp add: dict_get_def hdr parse_range_def range_response_def header_truthy_def)
qed

text \<open>
  C9. The claim: with a failed live fetch and no stored \<^verbatim>\<open>file_size\<close>, every request
  is answered with 416. A request whose \<^verbatim>\<open>Range\<close> header is malformed is answered with
  500, here \<^verbatim>\<open>bytes=abc-def\<close>.
\<close>

theorem zero_size_malformed_counterexample:
  "stream_handler (offline_request [(''file_id'', PInt 7)] (Some ''bytes=abc-def''))
     = Inr \<lparr>status = 500, headers = cors_headers, body = ServerErrorText ValueError\<rparr>"
  by (simp add: offline_request_def handler_defs)

text \<open>
  C9, as amended. When the live fetch raises an exception that derives from
  \<open>Exception\<close> and the stored record has no \<^verbatim>\<open>file_size\<close>, the size is 0, and every request
  whose \<^verbatim>\<open>Range\<close> header is absent, empty or read as two numbers is answered with 416
  and the single header \<^verbatim>\<open>Content-Range: bytes */0\<close>, whatever the upstream would
  stream. An absent or empty header is read as the interval \<open>[0, -1]\<close>.
\<close>

theorem zero_size_rejected:
  assumes "get_file rq (match_id rq) = Inr (Some file_data)" and "file_data \<noteq> []"
    and "py_int (py_or (dict_get file_data ''file_id'' PNone) (dict_get file_data ''message_id'' PNone))
           = Inr msg_id"
    and "live_properties rq msg_id = Inl e" and "is_Exception e"
    and "map_of file_data ''file_size'' = None"
    and "parse_range (range_header rq) 0 = Inr (f, u)"
  shows "(\<exists>p. resolving rq = Next (msg_id, p) \<and> file_size p = 0)
     \<and> stream_handler rq =
         Inr \<lparr>status = 416, headers = [(''Content-Range'', ''bytes */0'')],
              body = Text ''416: Range not satisfiable''\<rparr>
     \<and> (\<forall>ga sm. stream_handler (rq\<lparr>get_messages_again := ga, stream_media := sm\<rparr>) = stream_handler rq)
     \<and> parse_range None 0 = Inr (0, - 1)
     \<and> parse_range (Some []) 0 = Inr (0, - 1)"
proof -
  let ?p = "\<lparr>file_size = 0,
             file_name = dict_get file_data ''file_name'' (PStr ''video.mp4''),
             mime_type = PStr ''video/mp4'',
             msg = None\<rparr>"
  have size: "py_int (dict_get file_data ''file_size'' (PInt 0)) = Inr 0"
    using assms(6) by (simp add: dict_get_def)
  have res: "resolving rq = Next (msg_id, ?p)"
    using assms(1-5) size by (rule resolving_fallback)
  have parsed: "parse_range (range_header rq) (file_size ?p) = Inr (f, u)"
    using assms(7) by simp
  have rejected: "u \<ge> file_size ?p \<or> f < 0 \<or> u < f"
    by auto
  have zero: "str_int 0 = ''0''"
    by (simp add: str_int_def str_nat.simps digit_char_def)
  have any: "stream_handler (rq\<lparr>get_messages_again := ga, stream_media := sm\<rparr>)
           = Inr (range_not_satisfiable 0)" for ga sm
    using rejected_whatever_streams [OF res parsed rejected] by simp
  have "stream_handler rq = Inr (range_response rq msg_id ?p f u)"
    using res parsed by (rule handler_after_parse)
  with rejected have here: "stream_handler rq = Inr (range_not_satisfiable 0)"
    by (simp add: range_response_def)
  have absent: "parse_range None 0 = Inr (0, - 1)" "parse_range (Some []) 0 = Inr (0, - 1)"
    by (simp_all add: parse_range_def)
  from res have "\<exists>p. resolving rq = Next (msg_id, p) \<and> file_size p = 0"
    by simp
  with here any absent show ?thesis
    by (simp add: range_not_satisfiable_def zero)
qed

theorem zero_size_rejected_witness:
  "live_properties (offline_request [(''file_id'', PInt 7)] None) 7 = Inl FloodWait
   \<and> map_of [(''file_id'', PInt 7)] ''file_size'' = None
   \<and> parse_range (range_header (offline_request [(''file_id'', PInt 7)] None)) 0 = Inr (0, - 1)
   \<and> stream_handler (offline_request [(''file_id'', PInt 7)] None)
       = Inr \<lparr>status = 416, headers = [(''Content-Range'', ''bytes */0'')],
              body = Text ''416: Range not satisfiable''\<rparr>"
proof -
  let ?fd = "[(''file_id'', PInt 7)]"
  let ?rq = "offline_request ?fd None"
  have h1: "get_file ?rq (match_id ?rq) = Inr (Some ?fd)" by (simp add: offline_request_def)
  have h2: "?fd \<noteq> []" by simp
  have h3: "py_int (py_or (dict_get ?fd ''file_id'' PNone) (dict_get ?fd ''message_id'' PNone)) = Inr 7"
    by (simp add: dict_get_def py_or_def)
  have h4: "live_properties ?rq 7 = Inl FloodWait"
    by (simp add: offline_request_def live_properties_def)
  have h5: "is_Exception FloodWait" by simp
  have h6: "map_of ?fd ''file_size'' = None" by simp
  have h7: "parse_range (range_header ?rq) 0 = Inr (0, - 1)"
    by (simp add: offline_request_def parse_range_def)
  show ?thesis
    using h4 h6 h7 zero_size_rejected [OF h1 h2 h3 h4 h5 h6 h7]
    by simp
qed

end
